theory Spec2Isabelle
  imports Complex_Main "HOL-Library.AList" "HOL-Library.Sublist"
begin

section \<open>Values\<close>

text \<open>
  A Python \<open>str\<close> is a sequence of Unicode code points. The catalogue's texts are
  Cyrillic, the engine's wildcard and case folding work on code points and the
  diagnostic endpoint slices by code points, so a text is a list of code points.
  Dictionary keys, collection names and operator names are plain ASCII identifiers
  and stay \<open>string\<close>.
\<close>

type_synonym ustring = "nat list"

definition ascii :: "string \<Rightarrow> ustring" where
  "ascii s = map of_char s"

text \<open>
  The values a request body, a Python dictionary or a stored document holds. A number
  is a rational: the source's \<open>float\<close> values are decimal literals, compared only with
  \<open>\<le>\<close> and \<open>\<ge>\<close>, and an \<open>int\<close> is a number with no fractional part.
\<close>

datatype jvalue =
    JNull
  | JBool bool
  | JNum rat
  | JStr ustring
  | JArr "jvalue list"
  | JObj "(string \<times> jvalue) list"

text \<open>A dictionary in insertion order; \<open>map_of\<close> reads a key.\<close>

type_synonym document = "(string \<times> jvalue) list"

section \<open>The Offer schema (schemas.py)\<close>

record offer =
  name :: ustring
  apr :: rat
  min_amount :: int
  max_amount :: int
  term_min_days :: int
  term_max_days :: int
  approval_rate :: "rat option"
  rating :: "rat option"
  description :: "ustring option"
  link :: "ustring option"
  tags :: "ustring list"

text \<open>\<open>class OfferCreate(Offer): pass\<close>\<close>

type_synonym offer_create = offer

text \<open>\<open>class OfferPublic(Offer): id: Optional[str] = None\<close>\<close>

record offer_public = offer +
  id_str :: "ustring option"

text \<open>The field-level detail of a validation failure.\<close>

datatype verr =
    Missing string
  | Bad_type string
  | Out_of_range string
  | Bad_url string

definition offer_fields :: "string list" where
  "offer_fields =
     [''name'', ''apr'', ''min_amount'', ''max_amount'', ''term_min_days'', ''term_max_days'',
      ''approval_rate'', ''rating'', ''description'', ''link'', ''tags'']"

text \<open>
  One validator per kind of field declaration. A required field (\<open>Field(...)\<close>) that
  is absent is an error; an \<open>Optional\<close> field that is absent or null is \<open>None\<close>. The
  bounds are the \<open>ge\<close> and \<open>le\<close> arguments of \<open>Field\<close>. The validation library's
  coercions from other types (a numeric string, a boolean for a number) are not
  modelled: a value of another type is a type error.
\<close>

definition is_integral :: "rat \<Rightarrow> bool" where
  "is_integral x = (of_int \<lfloor>x\<rfloor> = x)"

definition req_str :: "string \<Rightarrow> document \<Rightarrow> verr + ustring" where
  "req_str k d =
     (case map_of d k of
        None \<Rightarrow> Inl (Missing k)
      | Some (JStr s) \<Rightarrow> Inr s
      | Some _ \<Rightarrow> Inl (Bad_type k))"

definition req_float_ge :: "rat \<Rightarrow> string \<Rightarrow> document \<Rightarrow> verr + rat" where
  "req_float_ge lo k d =
     (case map_of d k of
        None \<Rightarrow> Inl (Missing k)
      | Some (JNum x) \<Rightarrow> if lo \<le> x then Inr x else Inl (Out_of_range k)
      | Some _ \<Rightarrow> Inl (Bad_type k))"

definition req_int_ge :: "int \<Rightarrow> string \<Rightarrow> document \<Rightarrow> verr + int" where
  "req_int_ge lo k d =
     (case map_of d k of
        None \<Rightarrow> Inl (Missing k)
      | Some (JNum x) \<Rightarrow>
          if \<not> is_integral x then Inl (Bad_type k)
          else if lo \<le> \<lfloor>x\<rfloor> then Inr \<lfloor>x\<rfloor> else Inl (Out_of_range k)
      | Some _ \<Rightarrow> Inl (Bad_type k))"

definition opt_float_range :: "rat \<Rightarrow> rat \<Rightarrow> string \<Rightarrow> document \<Rightarrow> verr + rat option" where
  "opt_float_range lo hi k d =
     (case map_of d k of
        None \<Rightarrow> Inr None
      | Some JNull \<Rightarrow> Inr None
      | Some (JNum x) \<Rightarrow> if lo \<le> x \<and> x \<le> hi then Inr (Some x) else Inl (Out_of_range k)
      | Some _ \<Rightarrow> Inl (Bad_type k))"

definition opt_str :: "string \<Rightarrow> document \<Rightarrow> verr + ustring option" where
  "opt_str k d =
     (case map_of d k of
        None \<Rightarrow> Inr None
      | Some JNull \<Rightarrow> Inr None
      | Some (JStr s) \<Rightarrow> Inr (Some s)
      | Some _ \<Rightarrow> Inl (Bad_type k))"

text \<open>
  \<open>HttpUrl\<close>: the library's URL grammar is not part of the repository. The model keeps
  its outline: the scheme is http or https and something follows it.
\<close>

definition is_http_url :: "ustring \<Rightarrow> bool" where
  "is_http_url s =
     ((take 7 s = ascii ''http://'' \<and> 7 < length s) \<or>
      (take 8 s = ascii ''https://'' \<and> 8 < length s))"

definition opt_url :: "string \<Rightarrow> document \<Rightarrow> verr + ustring option" where
  "opt_url k d =
     (case map_of d k of
        None \<Rightarrow> Inr None
      | Some JNull \<Rightarrow> Inr None
      | Some (JStr s) \<Rightarrow> if is_http_url s then Inr (Some s) else Inl (Bad_url k)
      | Some _ \<Rightarrow> Inl (Bad_type k))"

fun str_items :: "jvalue list \<Rightarrow> ustring list option" where
  "str_items [] = Some []"
| "str_items (JStr s # vs) = map_option (Cons s) (str_items vs)"
| "str_items (_ # vs) = None"

definition str_list :: "string \<Rightarrow> document \<Rightarrow> verr + ustring list" where
  "str_list k d =
     (case map_of d k of
        None \<Rightarrow> Inr []
      | Some (JArr vs) \<Rightarrow> (case str_items vs of Some ss \<Rightarrow> Inr ss | None \<Rightarrow> Inl (Bad_type k))
      | Some _ \<Rightarrow> Inl (Bad_type k))"

definition errs :: "verr + 'a \<Rightarrow> verr list" where
  "errs r = (case r of Inl e \<Rightarrow> [e] | Inr _ \<Rightarrow> [])"

text \<open>
  Every field is checked and every failure reported, in the order of the class body.
  A key that is no field of the schema is never read.
\<close>

definition field_errors :: "document \<Rightarrow> verr list" where
  "field_errors d =
     errs (req_str ''name'' d) @
     errs (req_float_ge 0 ''apr'' d) @
     errs (req_int_ge 0 ''min_amount'' d) @
     errs (req_int_ge 0 ''max_amount'' d) @
     errs (req_int_ge 1 ''term_min_days'' d) @
     errs (req_int_ge 1 ''term_max_days'' d) @
     errs (opt_float_range 0 100 ''approval_rate'' d) @
     errs (opt_float_range 0 5 ''rating'' d) @
     errs (opt_str ''description'' d) @
     errs (opt_url ''link'' d) @
     errs (str_list ''tags'' d)"

definition validate_offer :: "document \<Rightarrow> verr list + offer" where
  "validate_offer d =
     (case (req_str ''name'' d, req_float_ge 0 ''apr'' d,
            req_int_ge 0 ''min_amount'' d, req_int_ge 0 ''max_amount'' d,
            req_int_ge 1 ''term_min_days'' d, req_int_ge 1 ''term_max_days'' d,
            opt_float_range 0 100 ''approval_rate'' d, opt_float_range 0 5 ''rating'' d,
            opt_str ''description'' d, opt_url ''link'' d, str_list ''tags'' d) of
        (Inr n, Inr a, Inr mn, Inr mx, Inr tmn, Inr tmx, Inr ar, Inr r, Inr ds, Inr l, Inr ts) \<Rightarrow>
          Inr \<lparr>name = n, apr = a, min_amount = mn, max_amount = mx,
               term_min_days = tmn, term_max_days = tmx, approval_rate = ar, rating = r,
               description = ds, link = l, tags = ts\<rparr>
      | _ \<Rightarrow> Inl (field_errors d))"

text \<open>
  \<open>OfferPublic(**d)\<close>: the Offer fields as above, and \<open>id: Optional[str]\<close>.
\<close>

definition validate_public :: "document \<Rightarrow> verr list + offer_public" where
  "validate_public d =
     (case (validate_offer d, opt_str ''id'' d) of
        (Inr v, Inr i) \<Rightarrow> Inr (offer.extend v (offer_public.fields i))
      | (Inl es, r) \<Rightarrow> Inl (es @ errs r)
      | (Inr v, Inl e) \<Rightarrow> Inl [e])"

text \<open>\<open>model_dump\<close>: the fields of a validated model, as a dictionary.\<close>

definition opt_json :: "('a \<Rightarrow> jvalue) \<Rightarrow> 'a option \<Rightarrow> jvalue" where
  "opt_json f v = (case v of None \<Rightarrow> JNull | Some x \<Rightarrow> f x)"

definition model_dump :: "offer \<Rightarrow> document" where
  "model_dump v =
     [(''name'', JStr (name v)),
      (''apr'', JNum (apr v)),
      (''min_amount'', JNum (of_int (min_amount v))),
      (''max_amount'', JNum (of_int (max_amount v))),
      (''term_min_days'', JNum (of_int (term_min_days v))),
      (''term_max_days'', JNum (of_int (term_max_days v))),
      (''approval_rate'', opt_json JNum (approval_rate v)),
      (''rating'', opt_json JNum (rating v)),
      (''description'', opt_json JStr (description v)),
      (''link'', opt_json JStr (link v)),
      (''tags'', JArr (map JStr (tags v)))]"

section \<open>The document store's query language\<close>

text \<open>
  The listing endpoint hands the store a filter dictionary and the store evaluates it.
  The evaluation is not in the sources; it is written here for the operators the source
  uses: \<open>$lte\<close>, \<open>$gte\<close>, \<open>$regex\<close> with \<open>$options\<close>, \<open>$in\<close> and \<open>$or\<close>.
\<close>

subsection \<open>Patterns\<close>

text \<open>
  \<open>$regex\<close> takes a pattern of the engine's pattern language, searched anywhere in the
  subject. The fragment covered here: a character that is no metacharacter stands for
  itself, and the dot stands for any character but a line feed. A pattern with another
  metacharacter (backslash, anchors, brackets, bar, parentheses, quantifiers, braces)
  is outside the fragment: \<open>rx_parse\<close> is \<open>None\<close> and nothing is said about the
  request.
\<close>

datatype rx_atom = Lit nat | Any_char

definition rx_meta :: "nat list" where
  "rx_meta = [92, 94, 36, 46, 91, 93, 124, 40, 41, 63, 42, 43, 123, 125]"

fun rx_parse :: "ustring \<Rightarrow> rx_atom list option" where
  "rx_parse [] = Some []"
| "rx_parse (c # cs) =
     (if c = 46 then map_option (Cons Any_char) (rx_parse cs)
      else if c \<in> set rx_meta then None
      else map_option (Cons (Lit c)) (rx_parse cs))"

text \<open>
  Option \<open>i\<close> compares characters after case folding. The engine's folding table is
  Unicode's. Only its rows for basic Latin and Cyrillic, the alphabets of the
  catalogue, are carried here: on a text in those alphabets the comparison below is the
  engine's, and a character outside them (an accented Latin letter, say) is compared
  here without folding, so that for such a character the model may answer no where
  the engine answers yes.
\<close>

definition casefold :: "nat \<Rightarrow> nat" where
  "casefold c =
     (if 65 \<le> c \<and> c \<le> 90 then c + 32
      else if 1040 \<le> c \<and> c \<le> 1071 then c + 32
      else if 1024 \<le> c \<and> c \<le> 1039 then c + 80
      else c)"

fun atom_ok :: "bool \<Rightarrow> rx_atom \<Rightarrow> nat \<Rightarrow> bool" where
  "atom_ok ci (Lit c) x = (if ci then casefold c = casefold x else c = x)"
| "atom_ok ci Any_char x = (x \<noteq> 10)"

fun rx_here :: "bool \<Rightarrow> rx_atom list \<Rightarrow> ustring \<Rightarrow> bool" where
  "rx_here ci [] s = True"
| "rx_here ci (a # as) [] = False"
| "rx_here ci (a # as) (x # xs) = (atom_ok ci a x \<and> rx_here ci as xs)"

fun rx_search :: "bool \<Rightarrow> rx_atom list \<Rightarrow> ustring \<Rightarrow> bool" where
  "rx_search ci as [] = rx_here ci as []"
| "rx_search ci as (x # xs) = (rx_here ci as (x # xs) \<or> rx_search ci as xs)"

definition regex_match :: "ustring \<Rightarrow> string \<Rightarrow> ustring \<Rightarrow> bool" where
  "regex_match pat opts s =
     (case rx_parse pat of
        None \<Rightarrow> False
      | Some as \<Rightarrow> rx_search (CHR ''i'' \<in> set opts) as s)"

subsection \<open>Operators and filters\<close>

text \<open>
  An operator dictionary such as \<open>{"$lte": v}\<close> or \<open>{"$regex": q, "$options": "i"}\<close> is
  a list of operator expressions; \<open>op_key\<close> is the key an expression sits under.
\<close>

datatype opexp =
    Lte rat
  | Gte rat
  | Regex ustring string
  | In_list "ustring list"

fun op_key :: "opexp \<Rightarrow> string" where
  "op_key (Lte _) = ''$lte''"
| "op_key (Gte _) = ''$gte''"
| "op_key (Regex _ _) = ''$regex''"
| "op_key (In_list _) = ''$in''"

text \<open>
  The value under a key of the filter: an operator dictionary under a field name, a
  list of sub-filters under \<open>$or\<close>.
\<close>

datatype fvalue =
    Ops "opexp list"
  | Or_list "(string \<times> opexp list) list list"

type_synonym filter_dict = "(string \<times> fvalue) list"

text \<open>
  Modelled from the spec: the store's evaluation of an operator is not among the
  sources. The spec has \<open>$lte\<close> and \<open>$gte\<close> keep the records whose field is at most, or at
  least, the value, and has a record that lacks the filtered field never match; the tag
  search is exact membership. So a comparison holds only of a number, a pattern and a
  membership test only of a string, and null, a boolean or a value of another type
  satisfies none of them. The name search is the one place where the source is followed
  rather than the spec's words: the source writes \<open>$regex\<close>, and \<open>regex_match\<close> reads its
  argument as a pattern.
\<close>

fun holds_scalar :: "opexp \<Rightarrow> jvalue \<Rightarrow> bool" where
  "holds_scalar (Lte v) (JNum x) = (x \<le> v)"
| "holds_scalar (Gte v) (JNum x) = (v \<le> x)"
| "holds_scalar (Regex pat opts) (JStr s) = regex_match pat opts s"
| "holds_scalar (In_list vs) (JStr s) = (s \<in> set vs)"
| "holds_scalar _ _ = False"

text \<open>
  Modelled from the spec: an operator against a field of a document. An absent field
  satisfies nothing; an array field, as \<open>tags\<close>, satisfies the operator when one of its
  members does.
\<close>

definition holds :: "opexp \<Rightarrow> jvalue option \<Rightarrow> bool" where
  "holds e fv =
     (case fv of
        None \<Rightarrow> False
      | Some (JArr xs) \<Rightarrow> list_ex (holds_scalar e) xs
      | Some v \<Rightarrow> holds_scalar e v)"

definition field_clause :: "document \<Rightarrow> string \<times> opexp list \<Rightarrow> bool" where
  "field_clause d c = list_all (\<lambda>e. holds e (map_of d (fst c))) (snd c)"

fun entry_holds :: "document \<Rightarrow> string \<times> fvalue \<Rightarrow> bool" where
  "entry_holds d (k, Ops es) = field_clause d (k, es)"
| "entry_holds d (k, Or_list fs) = list_ex (list_all (field_clause d)) fs"

text \<open>
  Modelled from the spec: the entries of a filter are combined by AND, the sub-filters
  under \<open>$or\<close> by OR; the empty filter holds of everything.
\<close>

definition matches :: "filter_dict \<Rightarrow> document \<Rightarrow> bool" where
  "matches f d = list_all (entry_holds d) f"

text \<open>Whether every pattern of a filter lies in the fragment covered.\<close>

fun op_covered :: "opexp \<Rightarrow> bool" where
  "op_covered (Regex pat opts) = (rx_parse pat \<noteq> None \<and> set opts \<subseteq> {CHR ''i''})"
| "op_covered _ = True"

fun entry_covered :: "string \<times> fvalue \<Rightarrow> bool" where
  "entry_covered (k, Ops es) = list_all op_covered es"
| "entry_covered (k, Or_list fs) = list_all (list_all (\<lambda>c. list_all op_covered (snd c))) fs"

definition covered :: "filter_dict \<Rightarrow> bool" where
  "covered f = list_all entry_covered f"

subsection \<open>Building the filter (main.py, list_offers)\<close>

text \<open>The dictionary operations the builder uses.\<close>

definition dict_set :: "string \<Rightarrow> 'v \<Rightarrow> (string \<times> 'v) list \<Rightarrow> (string \<times> 'v) list" where
  "dict_set k v m = AList.update k v m"

definition setdefault :: "string \<Rightarrow> 'v \<Rightarrow> (string \<times> 'v) list \<Rightarrow> (string \<times> 'v) list" where
  "setdefault k v m = (case map_of m k of None \<Rightarrow> AList.update k v m | Some _ \<Rightarrow> m)"

text \<open>
  \<open>filter_dict[k].update(new)\<close>: the operator dictionary under \<open>k\<close> takes the entries of
  \<open>new\<close>, which replace those under the same operator key. The key is there: the
  source calls \<open>setdefault\<close> first.
\<close>

definition ops_update :: "opexp list \<Rightarrow> opexp list \<Rightarrow> opexp list" where
  "ops_update new old = filter (\<lambda>e. op_key e \<notin> op_key ` set new) old @ new"

definition update_at :: "string \<Rightarrow> opexp list \<Rightarrow> filter_dict \<Rightarrow> filter_dict" where
  "update_at k new m =
     (case map_of m k of
        Some (Ops old) \<Rightarrow> AList.update k (Ops (ops_update new old)) m
      | _ \<Rightarrow> m)"

text \<open>
  Lines 44 to 63 of main.py, one step per \<open>if\<close>. \<open>if q:\<close> is Python truthiness: the
  clause is added when \<open>q\<close> is given and not the empty string.
\<close>

definition build_filter ::
  "ustring option \<Rightarrow> rat option \<Rightarrow> int option \<Rightarrow> int option \<Rightarrow> rat option \<Rightarrow> filter_dict" where
  "build_filter q max_apr min_amount_q max_amount_q min_rating =
     (let f0 = [];
          f1 = (case max_apr of None \<Rightarrow> f0
                | Some v \<Rightarrow> dict_set ''apr'' (Ops [Lte v]) f0);
          f2 = (case min_amount_q of None \<Rightarrow> f1
                | Some v \<Rightarrow> update_at ''max_amount'' [Gte (of_int v)]
                             (setdefault ''max_amount'' (Ops []) f1));
          f3 = (case max_amount_q of None \<Rightarrow> f2
                | Some v \<Rightarrow> update_at ''min_amount'' [Lte (of_int v)]
                             (setdefault ''min_amount'' (Ops []) f2));
          f4 = (case min_rating of None \<Rightarrow> f3
                | Some v \<Rightarrow> dict_set ''rating'' (Ops [Gte v]) f3);
          f5 = (case q of None \<Rightarrow> f4
                | Some s \<Rightarrow>
                    if s = [] then f4
                    else dict_set ''$or''
                           (Or_list [[(''name'', [Regex s ''i''])], [(''tags'', [In_list [s]])]]) f4)
      in f5)"

section \<open>The document store\<close>

text \<open>
  A stored document is its identifier (the \<open>_id\<close> the store assigns) and its fields. The
  store holds named collections in insertion order and the next identifier to assign.
  The store is reached over a network: \<open>faults\<close> is the schedule of what its next
  operations do, one entry per operation, \<open>Some e\<close> for one that raises an exception
  with text \<open>e\<close>; past the end of the schedule every operation succeeds.
\<close>

type_synonym stored = "nat \<times> document"

record store =
  colls :: "(string \<times> stored list) list"
  next_oid :: nat
  db_name :: "ustring option"
  faults :: "ustring option list"

datatype store_err = Raised ustring | Pattern_uncovered

definition tick :: "store \<Rightarrow> ustring option \<times> store" where
  "tick s = (case faults s of [] \<Rightarrow> (None, s) | f # fs \<Rightarrow> (f, s\<lparr>faults := fs\<rparr>))"

definition coll :: "store \<Rightarrow> string \<Rightarrow> stored list" where
  "coll s n = (case map_of (colls s) n of None \<Rightarrow> [] | Some ds \<Rightarrow> ds)"

definition find_docs :: "string \<Rightarrow> filter_dict \<Rightarrow> store \<Rightarrow> (store_err + stored list) \<times> store" where
  "find_docs n f s =
     (case tick s of
        (Some e, s') \<Rightarrow> (Inl (Raised e), s')
      | (None, s') \<Rightarrow>
          if covered f then (Inr (filter (\<lambda>sd. matches f (snd sd)) (coll s' n)), s')
          else (Inl Pattern_uncovered, s'))"

definition count_documents :: "string \<Rightarrow> filter_dict \<Rightarrow> store \<Rightarrow> (store_err + nat) \<times> store" where
  "count_documents n f s =
     (case find_docs n f s of
        (Inl e, s') \<Rightarrow> (Inl e, s')
      | (Inr ds, s') \<Rightarrow> (Inr (length ds), s'))"

definition insert_one :: "string \<Rightarrow> document \<Rightarrow> store \<Rightarrow> (ustring + nat) \<times> store" where
  "insert_one n d s =
     (case tick s of
        (Some e, s') \<Rightarrow> (Inl e, s')
      | (None, s') \<Rightarrow>
          (Inr (next_oid s'),
           s'\<lparr>colls := AList.update n (coll s' n @ [(next_oid s', d)]) (colls s'),
              next_oid := Suc (next_oid s')\<rparr>))"

definition list_collection_names :: "store \<Rightarrow> (ustring + string list) \<times> store" where
  "list_collection_names s =
     (case tick s of
        (Some e, s') \<Rightarrow> (Inl e, s')
      | (None, s') \<Rightarrow> (Inr (map fst (colls s')), s'))"

text \<open>\<open>str\<close> of an identifier: its digits. The text is opaque to the service.\<close>

function str_oid :: "nat \<Rightarrow> ustring" where
  "str_oid n = (if n < 10 then [48 + n] else str_oid (n div 10) @ [48 + n mod 10])"
  by pat_completeness auto
termination
  by (relation "measure (\<lambda>n. n)") auto

subsection \<open>The gateway (database.py)\<close>

text \<open>
  Modelled from the spec: database.py, which defines \<open>db\<close>, \<open>create_document\<close> and
  \<open>get_documents\<close>, is not among the sources. The spec has the gateway as generic create
  and query functions over named collections: a document inserted receives a
  store-assigned unique identifier, returned as a string; a query returns the documents
  of the collection that the filter expression, passed unmodified, selects. \<open>db\<close> is the
  store handle, \<open>None\<close> when the store is not configured.
\<close>

type_synonym db = "store option"

definition create_document :: "string \<Rightarrow> document \<Rightarrow> store \<Rightarrow> (ustring + ustring) \<times> store" where
  "create_document n d s =
     (case insert_one n d s of
        (Inl e, s') \<Rightarrow> (Inl e, s')
      | (Inr i, s') \<Rightarrow> (Inr (str_oid i), s'))"

definition get_documents :: "string \<Rightarrow> filter_dict \<Rightarrow> store \<Rightarrow> (store_err + stored list) \<times> store" where
  "get_documents n f s = find_docs n f s"

section \<open>The endpoints (main.py)\<close>

text \<open>
  What a request ends in: a response with its status code, an \<open>HTTPException\<close> the handler
  raises, the framework's rejection of a request that fails validation (status 422),
  an exception that leaves the handler uncaught (status 500), or a request whose
  pattern lies outside the fragment of the pattern language covered.
\<close>

datatype exn = StoreError ustring | ValidationError "verr list"

datatype 'a outcome =
    Ok nat 'a
  | HTTPException nat ustring
  | RequestValidationError "verr list"
  | Unhandled exn
  | Uncovered

fun status_code :: "'a outcome \<Rightarrow> nat option" where
  "status_code (Ok c _) = Some c"
| "status_code (HTTPException c _) = Some c"
| "status_code (RequestValidationError _) = Some 422"
| "status_code (Unhandled _) = Some 500"
| "status_code Uncovered = None"

subsection \<open>GET /api/offers\<close>

text \<open>
  \<open>d["id"] = str(d.pop("_id"))\<close> and \<open>OfferPublic(**d)\<close>, for one document and for the
  loop over the documents returned; a document that fails validation raises.
\<close>

definition to_public :: "stored \<Rightarrow> verr list + offer_public" where
  "to_public sd = validate_public (dict_set ''id'' (JStr (str_oid (fst sd))) (snd sd))"

fun public_results :: "stored list \<Rightarrow> verr list + offer_public list" where
  "public_results [] = Inr []"
| "public_results (sd # sds) =
     (case to_public sd of
        Inl es \<Rightarrow> Inl es
      | Inr r \<Rightarrow> (case public_results sds of Inl es \<Rightarrow> Inl es | Inr rs \<Rightarrow> Inr (r # rs)))"

definition list_offers ::
  "db \<Rightarrow> ustring option \<Rightarrow> rat option \<Rightarrow> int option \<Rightarrow> int option \<Rightarrow> rat option \<Rightarrow>
   offer_public list outcome \<times> db" where
  "list_offers db q max_apr min_amount_q max_amount_q min_rating =
     (case db of
        None \<Rightarrow> (HTTPException 500 (ascii ''Database not configured''), None)
      | Some s \<Rightarrow>
          (case get_documents ''offer''
                  (build_filter q max_apr min_amount_q max_amount_q min_rating) s of
             (Inl (Raised e), s') \<Rightarrow> (Unhandled (StoreError e), Some s')
           | (Inl Pattern_uncovered, s') \<Rightarrow> (Uncovered, Some s')
           | (Inr docs, s') \<Rightarrow>
               (case public_results docs of
                  Inl es \<Rightarrow> (Unhandled (ValidationError es), Some s')
                | Inr results \<Rightarrow> (Ok 200 results, Some s'))))"

text \<open>
  The bounds of the \<open>Query\<close> declarations (\<open>ge=0\<close>, and \<open>le=5\<close> for the rating), which the
  framework checks before it calls the handler.
\<close>

definition query_errors :: "rat option \<Rightarrow> int option \<Rightarrow> int option \<Rightarrow> rat option \<Rightarrow> verr list" where
  "query_errors max_apr min_amount_q max_amount_q min_rating =
     (case max_apr of Some v \<Rightarrow> if 0 \<le> v then [] else [Out_of_range ''max_apr''] | None \<Rightarrow> []) @
     (case min_amount_q of Some v \<Rightarrow> if 0 \<le> v then [] else [Out_of_range ''min_amount''] | None \<Rightarrow> []) @
     (case max_amount_q of Some v \<Rightarrow> if 0 \<le> v then [] else [Out_of_range ''max_amount''] | None \<Rightarrow> []) @
     (case min_rating of Some v \<Rightarrow> if 0 \<le> v \<and> v \<le> 5 then [] else [Out_of_range ''min_rating'']
      | None \<Rightarrow> [])"

definition get_api_offers ::
  "db \<Rightarrow> ustring option \<Rightarrow> rat option \<Rightarrow> int option \<Rightarrow> int option \<Rightarrow> rat option \<Rightarrow>
   offer_public list outcome \<times> db" where
  "get_api_offers db q max_apr min_amount_q max_amount_q min_rating =
     (if query_errors max_apr min_amount_q max_amount_q min_rating \<noteq> []
      then (RequestValidationError (query_errors max_apr min_amount_q max_amount_q min_rating), db)
      else list_offers db q max_apr min_amount_q max_amount_q min_rating)"

subsection \<open>POST /api/offers\<close>

definition create_offer :: "db \<Rightarrow> offer_create \<Rightarrow> ustring outcome \<times> db" where
  "create_offer db payload =
     (case db of
        None \<Rightarrow> (HTTPException 500 (ascii ''Database not configured''), None)
      | Some s \<Rightarrow>
          (case create_document ''offer'' (model_dump payload) s of
             (Inl e, s') \<Rightarrow> (Unhandled (StoreError e), Some s')
           | (Inr inserted_id, s') \<Rightarrow> (Ok 201 inserted_id, Some s')))"

text \<open>
  The framework validates the body against \<open>OfferCreate\<close> and calls the handler with the
  model only when validation succeeds.
\<close>

definition post_api_offers :: "db \<Rightarrow> document \<Rightarrow> ustring outcome \<times> db" where
  "post_api_offers db body =
     (case validate_offer body of
        Inl es \<Rightarrow> (RequestValidationError es, db)
      | Inr payload \<Rightarrow> create_offer db payload)"

subsection \<open>POST /api/offers/seed\<close>

text \<open>
  The four sample offers: Bystrye Dengi, Nadyozhny Zaim, Zaimer and RublGo, their
  texts as code points.
\<close>

definition name_fast :: ustring where
  "name_fast =
     [1041, 1099, 1089, 1090, 1088, 1099, 1077, 32, 1044, 1077, 1085, 1100, 1075, 1080]"

definition sample_fast :: document where
  "sample_fast =
     [(''name'', JStr name_fast),
      (''apr'', JNum (299 / 10)),
      (''min_amount'', JNum 1000),
      (''max_amount'', JNum 50000),
      (''term_min_days'', JNum 7),
      (''term_max_days'', JNum 30),
      (''approval_rate'', JNum 85),
      (''rating'', JNum (46 / 10)),
      (''description'', JStr
        [1052, 1075, 1085, 1086, 1074, 1077, 1085, 1085, 1086, 1077, 32, 1086, 1076, 1086,
        1073, 1088, 1077, 1085, 1080, 1077, 32, 1080, 32, 1074, 1099, 1076, 1072, 1095, 1072,
        32, 1085, 1072, 32, 1082, 1072, 1088, 1090, 1091, 32, 1079, 1072, 32, 53, 32, 1084,
        1080, 1085, 1091, 1090, 46]),
      (''link'', JStr (ascii ''https://example.com/fast'')),
      (''tags'', JArr
        [JStr [1073, 1099, 1089, 1090, 1088, 1086],
         JStr [1086, 1085, 1083, 1072, 1081, 1085],
         JStr [1085, 1072, 32, 1082, 1072, 1088, 1090, 1091]])]"

definition name_reliable :: ustring where
  "name_reliable =
     [1053, 1072, 1076, 1105, 1078, 1085, 1099, 1081, 32, 1047, 1072, 1081, 1084]"

definition sample_reliable :: document where
  "sample_reliable =
     [(''name'', JStr name_reliable),
      (''apr'', JNum (245 / 10)),
      (''min_amount'', JNum 3000),
      (''max_amount'', JNum 70000),
      (''term_min_days'', JNum 10),
      (''term_max_days'', JNum 60),
      (''approval_rate'', JNum 78),
      (''rating'', JNum (44 / 10)),
      (''description'', JStr
        [1041, 1077, 1079, 32, 1089, 1087, 1088, 1072, 1074, 1086, 1082, 32, 1080, 32, 1087,
        1086, 1088, 1091, 1095, 1080, 1090, 1077, 1083, 1077, 1081, 44, 32, 1087, 1088, 1086,
        1079, 1088, 1072, 1095, 1085, 1099, 1077, 32, 1091, 1089, 1083, 1086, 1074, 1080, 1103,
        46]),
      (''link'', JStr (ascii ''https://example.com/reliable'')),
      (''tags'', JArr
        [JStr [1073, 1077, 1079, 32, 1089, 1087, 1088, 1072, 1074, 1086, 1082],
         JStr [1087, 1088, 1086, 1079, 1088, 1072, 1095, 1085, 1086]])]"

definition name_zaimer :: ustring where
  "name_zaimer =
     [1047, 1072, 1081, 1084, 1077, 1088]"

definition sample_zaimer :: document where
  "sample_zaimer =
     [(''name'', JStr name_zaimer),
      (''apr'', JNum (199 / 10)),
      (''min_amount'', JNum 5000),
      (''max_amount'', JNum 100000),
      (''term_min_days'', JNum 15),
      (''term_max_days'', JNum 90),
      (''approval_rate'', JNum 70),
      (''rating'', JNum (48 / 10)),
      (''description'', JStr
        [1051, 1091, 1095, 1096, 1080, 1077, 32, 1089, 1090, 1072, 1074, 1082, 1080, 32, 1076,
        1083, 1103, 32, 1087, 1086, 1089, 1090, 1086, 1103, 1085, 1085, 1099, 1093, 32, 1082,
        1083, 1080, 1077, 1085, 1090, 1086, 1074, 46]),
      (''link'', JStr (ascii ''https://example.com/zaimer'')),
      (''tags'', JArr
        [JStr [1085, 1080, 1079, 1082, 1072, 1103, 32, 1089, 1090, 1072, 1074, 1082, 1072],
         JStr [1083, 1086, 1103, 1083, 1100, 1085, 1086, 1089, 1090, 1100]])]"

definition name_rublgo :: ustring where
  "name_rublgo =
     [1056, 1091, 1073, 1083, 1100, 71, 111]"

definition sample_rublgo :: document where
  "sample_rublgo =
     [(''name'', JStr name_rublgo),
      (''apr'', JNum (349 / 10)),
      (''min_amount'', JNum 1000),
      (''max_amount'', JNum 30000),
      (''term_min_days'', JNum 7),
      (''term_max_days'', JNum 45),
      (''approval_rate'', JNum 90),
      (''rating'', JNum (42 / 10)),
      (''description'', JStr
        [1042, 1099, 1089, 1086, 1082, 1080, 1081, 32, 1087, 1088, 1086, 1094, 1077, 1085,
        1090, 32, 1086, 1076, 1086, 1073, 1088, 1077, 1085, 1080, 1103, 44, 32, 1087, 1077,
        1088, 1074, 1099, 1081, 32, 1079, 1072, 1081, 1084, 32, 1087, 1086, 1076, 32, 48, 37,
        46]),
      (''link'', JStr (ascii ''https://example.com/rublgo'')),
      (''tags'', JArr
        [JStr [48, 37],
         JStr [1074, 1099, 1089, 1086, 1082, 1086, 1077, 32, 1086, 1076, 1086, 1073, 1088, 1077,
              1085, 1080, 1077]])]"

definition sample :: "document list" where
  "sample = [sample_fast, sample_reliable, sample_zaimer, sample_rublgo]"

record seed_response =
  status :: string
  inserted :: nat
  message :: "string option"

text \<open>The loop \<open>for s in sample: create_document("offer", s); inserted += 1\<close>.\<close>

fun insert_samples :: "document list \<Rightarrow> nat \<Rightarrow> store \<Rightarrow> (ustring + nat) \<times> store" where
  "insert_samples [] n s = (Inr n, s)"
| "insert_samples (d # ds) n s =
     (case create_document ''offer'' d s of
        (Inl e, s') \<Rightarrow> (Inl e, s')
      | (Inr _, s') \<Rightarrow> insert_samples ds (Suc n) s')"

text \<open>
  \<open>except Exception as e: raise HTTPException(status_code=500, detail=str(e))\<close>, for
  what the count can end in.
\<close>

fun seed_failed :: "store_err \<Rightarrow> seed_response outcome" where
  "seed_failed (Raised e) = HTTPException 500 e"
| "seed_failed Pattern_uncovered = Uncovered"

definition seed_offers :: "db \<Rightarrow> seed_response outcome \<times> db" where
  "seed_offers db =
     (case db of
        None \<Rightarrow> (HTTPException 500 (ascii ''Database not configured''), None)
      | Some s \<Rightarrow>
          (case count_documents ''offer'' [] s of
             (Inl e, s') \<Rightarrow> (seed_failed e, Some s')
           | (Inr count, s') \<Rightarrow>
               if count > 0
               then (Ok 200 \<lparr>status = ''ok'', inserted = 0,
                             message = Some ''Offers already exist''\<rparr>, Some s')
               else
                 (case insert_samples sample 0 s' of
                    (Inl e, s'') \<Rightarrow> (HTTPException 500 e, Some s'')
                  | (Inr n, s'') \<Rightarrow>
                      (Ok 200 \<lparr>status = ''ok'', inserted = n, message = None\<rparr>, Some s''))))"

subsection \<open>GET /test\<close>

record diagnostics =
  backend :: ustring
  database :: ustring
  database_url :: "ustring option"
  database_name :: "ustring option"
  connection_status :: ustring
  collections :: "string list"

text \<open>
  The status texts start with a check mark (9989), a cross (10060) or a warning sign
  (9888, 65039). \<open>str(e)[:50]\<close> is the first fifty code points of the exception's text.
  \<open>getenv\<close> is the process environment; a variable that is unset or empty is falsy.
\<close>

definition env_set :: "(string \<Rightarrow> ustring option) \<Rightarrow> string \<Rightarrow> bool" where
  "env_set getenv k = (case getenv k of None \<Rightarrow> False | Some v \<Rightarrow> v \<noteq> [])"

definition test_database :: "db \<Rightarrow> (string \<Rightarrow> ustring option) \<Rightarrow> diagnostics outcome \<times> db" where
  "test_database db getenv =
     (let response =
            \<lparr>backend = [9989] @ ascii '' Running'',
             database = [10060] @ ascii '' Not Available'',
             database_url = None,
             database_name = None,
             connection_status = ascii ''Not Connected'',
             collections = []\<rparr>;
          (response, db) =
            (case db of
               Some s \<Rightarrow>
                 (let response = response
                        \<lparr>database := [9989] @ ascii '' Available'',
                         database_url := Some ([9989] @ ascii '' Configured''),
                         database_name :=
                           Some (case db_name s of Some n \<Rightarrow> n
                                 | None \<Rightarrow> [9989] @ ascii '' Connected''),
                         connection_status := ascii ''Connected''\<rparr>
                  in case list_collection_names s of
                       (Inr names, s') \<Rightarrow>
                         (response
                            \<lparr>collections := take 10 names,
                             database := [9989] @ ascii '' Connected & Working''\<rparr>,
                          Some s')
                     | (Inl e, s') \<Rightarrow>
                         (response
                            \<lparr>database := [9888, 65039] @ ascii ''  Connected but Error: '' @ take 50 e\<rparr>,
                          Some s'))
             | None \<Rightarrow>
                 (response\<lparr>database := [9888, 65039] @ ascii ''  Available but not initialized''\<rparr>,
                  None));
          response = response
            \<lparr>database_url :=
               Some (if env_set getenv ''DATABASE_URL'' then [9989] @ ascii '' Set''
                     else [10060] @ ascii '' Not Set''),
             database_name :=
               Some (if env_set getenv ''DATABASE_NAME'' then [9989] @ ascii '' Set''
                     else [10060] @ ascii '' Not Set'')\<rparr>
      in (Ok 200 response, db))"

section \<open>The vocabulary of the statements\<close>

text \<open>A store with no collection and no fault scheduled.\<close>

definition empty_store :: store where
  "empty_store = \<lparr>colls = [], next_oid = 0, db_name = Some (ascii ''mfo''), faults = []\<rparr>"

text \<open>The names of the records a listing returns, in the order returned.\<close>

definition listed_names :: "offer_public list outcome \<Rightarrow> ustring list option" where
  "listed_names r = (case r of Ok _ rs \<Rightarrow> Some (map name rs) | _ \<Rightarrow> None)"

text \<open>
  The spec's reading of the text search on the name: \<open>q\<close> occurs in the name as a
  contiguous run of characters, compared after case folding.
\<close>

definition ci_substring :: "ustring \<Rightarrow> ustring \<Rightarrow> bool" where
  "ci_substring q s = sublist (map casefold q) (map casefold s)"

text \<open>
  Two small valid documents, a store that holds them, and the records the listing
  makes of them. The first has no rating.
\<close>

definition doc_a :: document where
  "doc_a =
     [(''name'', JStr (ascii ''Alfa'')), (''apr'', JNum 10),
      (''min_amount'', JNum 100), (''max_amount'', JNum 500),
      (''term_min_days'', JNum 7), (''term_max_days'', JNum 30),
      (''tags'', JArr [JStr (ascii ''fast'')])]"

definition doc_b :: document where
  "doc_b =
     [(''name'', JStr (ascii ''Beta'')), (''apr'', JNum 20),
      (''min_amount'', JNum 1000), (''max_amount'', JNum 5000),
      (''term_min_days'', JNum 7), (''term_max_days'', JNum 30),
      (''rating'', JNum 4), (''tags'', JArr [])]"

definition demo_store :: store where
  "demo_store =
     \<lparr>colls = [(''offer'', [(0, doc_a), (1, doc_b)])], next_oid = 2,
      db_name = None, faults = []\<rparr>"

definition public_a :: offer_public where
  "public_a =
     \<lparr>name = ascii ''Alfa'', apr = 10, min_amount = 100, max_amount = 500,
      term_min_days = 7, term_max_days = 30, approval_rate = None, rating = None,
      description = None, link = None, tags = [ascii ''fast''], id_str = Some [48]\<rparr>"

definition public_b :: offer_public where
  "public_b =
     \<lparr>name = ascii ''Beta'', apr = 20, min_amount = 1000, max_amount = 5000,
      term_min_days = 7, term_max_days = 30, approval_rate = None, rating = Some 4,
      description = None, link = None, tags = [], id_str = Some [49]\<rparr>"

text \<open>
  Request bodies: one whose \<open>min_amount\<close> is negative; one in which every field meets
  its own bound while the amounts and the terms are crossed; one that carries an \<open>id\<close>
  and another key that is no field of the schema.
\<close>

definition negative_body :: document where
  "negative_body =
     [(''name'', JStr (ascii ''Minus'')), (''apr'', JNum 10),
      (''min_amount'', JNum (- 5)), (''max_amount'', JNum 500),
      (''term_min_days'', JNum 7), (''term_max_days'', JNum 30)]"

definition crossed_body :: document where
  "crossed_body =
     [(''name'', JStr (ascii ''Cross'')), (''apr'', JNum 10),
      (''min_amount'', JNum 500), (''max_amount'', JNum 100),
      (''term_min_days'', JNum 30), (''term_max_days'', JNum 7)]"

definition crossed_offer :: offer where
  "crossed_offer =
     \<lparr>name = ascii ''Cross'', apr = 10, min_amount = 500, max_amount = 100,
      term_min_days = 30, term_max_days = 7, approval_rate = None, rating = None,
      description = None, link = None, tags = []\<rparr>"

definition body_with_id :: document where
  "body_with_id = (''id'', JStr (ascii ''abc'')) # doc_a @ [(''admin'', JBool True)]"

section \<open>Validation\<close>

lemmas field_defs = req_str_def req_float_ge_def req_int_ge_def opt_float_range_def
  opt_str_def opt_url_def str_list_def

lemma validate_offer_cong:
  assumes "\<And>k. k \<in> set offer_fields \<Longrightarrow> map_of d1 k = map_of d2 k"
  shows "validate_offer d1 = validate_offer d2"
proof -
  have eq: "req_str ''name'' d1 = req_str ''name'' d2"
    "req_float_ge 0 ''apr'' d1 = req_float_ge 0 ''apr'' d2"
    "req_int_ge 0 ''min_amount'' d1 = req_int_ge 0 ''min_amount'' d2"
    "req_int_ge 0 ''max_amount'' d1 = req_int_ge 0 ''max_amount'' d2"
    "req_int_ge 1 ''term_min_days'' d1 = req_int_ge 1 ''term_min_days'' d2"
    "req_int_ge 1 ''term_max_days'' d1 = req_int_ge 1 ''term_max_days'' d2"
    "opt_float_range 0 100 ''approval_rate'' d1 = opt_float_range 0 100 ''approval_rate'' d2"
    "opt_float_range 0 5 ''rating'' d1 = opt_float_range 0 5 ''rating'' d2"
    "opt_str ''description'' d1 = opt_str ''description'' d2"
    "opt_url ''link'' d1 = opt_url ''link'' d2"
    "str_list ''tags'' d1 = str_list ''tags'' d2"
    using assms by (simp_all add: offer_fields_def field_defs)
  show ?thesis
    unfolding validate_offer_def field_errors_def by (simp only: eq)
qed

lemma validate_offer_dict_set_id:
  "validate_offer (dict_set ''id'' v d) = validate_offer d"
  by (rule validate_offer_cong) (auto simp add: dict_set_def update_conv' offer_fields_def)

lemma opt_str_dict_set_id: "opt_str ''id'' (dict_set ''id'' (JStr s) d) = Inr (Some s)"
  by (simp add: opt_str_def dict_set_def update_conv')

lemma to_public_eq:
  "to_public (i, d) =
     (case validate_offer d of
        Inl es \<Rightarrow> Inl es
      | Inr v \<Rightarrow> Inr (offer.extend v (offer_public.fields (Some (str_oid i)))))"
proof (cases "validate_offer d")
  case (Inl es)
  then show ?thesis
    by (simp add: to_public_def validate_public_def validate_offer_dict_set_id
          opt_str_dict_set_id errs_def)
next
  case (Inr v)
  then show ?thesis
    by (simp add: to_public_def validate_public_def validate_offer_dict_set_id
          opt_str_dict_set_id)
qed

lemma validate_offer_Inr_iff:
  "validate_offer d = Inr v \<longleftrightarrow>
     req_str ''name'' d = Inr (name v) \<and>
     req_float_ge 0 ''apr'' d = Inr (apr v) \<and>
     req_int_ge 0 ''min_amount'' d = Inr (min_amount v) \<and>
     req_int_ge 0 ''max_amount'' d = Inr (max_amount v) \<and>
     req_int_ge 1 ''term_min_days'' d = Inr (term_min_days v) \<and>
     req_int_ge 1 ''term_max_days'' d = Inr (term_max_days v) \<and>
     opt_float_range 0 100 ''approval_rate'' d = Inr (approval_rate v) \<and>
     opt_float_range 0 5 ''rating'' d = Inr (rating v) \<and>
     opt_str ''description'' d = Inr (description v) \<and>
     opt_url ''link'' d = Inr (link v) \<and>
     str_list ''tags'' d = Inr (tags v)"
  by (cases v) (auto simp add: validate_offer_def split: sum.splits)

lemma validate_offer_Inl: "validate_offer d = Inl es \<Longrightarrow> es = field_errors d"
  by (simp add: validate_offer_def split: sum.splits)

lemma req_int_ge_Inr:
  assumes "req_int_ge lo k d = Inr n"
  shows "map_of d k = Some (JNum (of_int n))"
proof -
  from assms obtain x where "map_of d k = Some (JNum x)" "is_integral x" "n = \<lfloor>x\<rfloor>"
    by (auto simp add: req_int_ge_def split: option.splits jvalue.splits if_splits)
  then show ?thesis
    by (auto simp add: is_integral_def)
qed

lemma req_float_ge_Inr: "req_float_ge lo k d = Inr x \<Longrightarrow> map_of d k = Some (JNum x)"
  by (auto simp add: req_float_ge_def split: option.splits jvalue.splits if_splits)

lemma req_str_Inr: "req_str k d = Inr x \<Longrightarrow> map_of d k = Some (JStr x)"
  by (auto simp add: req_str_def split: option.splits jvalue.splits)

lemma opt_float_range_None:
  "opt_float_range lo hi k d = Inr None \<Longrightarrow> map_of d k = None \<or> map_of d k = Some JNull"
  by (auto simp add: opt_float_range_def split: option.splits jvalue.splits if_splits)

lemma str_items_Some: "str_items vs = Some ss \<Longrightarrow> vs = map JStr ss"
  by (induction vs arbitrary: ss rule: str_items.induct) auto

lemma str_list_Inr:
  "str_list k d = Inr ss \<Longrightarrow>
     (map_of d k = None \<and> ss = []) \<or> map_of d k = Some (JArr (map JStr ss))"
  by (auto simp add: str_list_def dest: str_items_Some split: option.splits jvalue.splits)

lemma to_public_Inr:
  "to_public (i, d) = Inr r \<Longrightarrow> validate_offer d = Inr (offer.truncate r)"
  by (auto simp add: to_public_eq offer.truncate_def offer.extend_def split: sum.splits)

lemma valid_fields:
  assumes "validate_offer d = Inr v"
  shows "map_of d ''name'' = Some (JStr (name v))"
    and "map_of d ''apr'' = Some (JNum (apr v))"
    and "map_of d ''min_amount'' = Some (JNum (of_int (min_amount v)))"
    and "map_of d ''max_amount'' = Some (JNum (of_int (max_amount v)))"
    and "rating v = None \<Longrightarrow> map_of d ''rating'' = None \<or> map_of d ''rating'' = Some JNull"
    and "(map_of d ''tags'' = None \<and> tags v = []) \<or> map_of d ''tags'' = Some (JArr (map JStr (tags v)))"
proof -
  from assms have f: "req_str ''name'' d = Inr (name v)"
    "req_float_ge 0 ''apr'' d = Inr (apr v)"
    "req_int_ge 0 ''min_amount'' d = Inr (min_amount v)"
    "req_int_ge 0 ''max_amount'' d = Inr (max_amount v)"
    "opt_float_range 0 5 ''rating'' d = Inr (rating v)"
    "str_list ''tags'' d = Inr (tags v)"
    by (simp_all add: validate_offer_Inr_iff)
  show "map_of d ''name'' = Some (JStr (name v))"
    using f(1) by (rule req_str_Inr)
  show "map_of d ''apr'' = Some (JNum (apr v))"
    using f(2) by (rule req_float_ge_Inr)
  show "map_of d ''min_amount'' = Some (JNum (of_int (min_amount v)))"
    using f(3) by (rule req_int_ge_Inr)
  show "map_of d ''max_amount'' = Some (JNum (of_int (max_amount v)))"
    using f(4) by (rule req_int_ge_Inr)
  show "map_of d ''rating'' = None \<or> map_of d ''rating'' = Some JNull" if "rating v = None"
    using f(5) that opt_float_range_None [of 0 5 "''rating''" d] by simp
  show "(map_of d ''tags'' = None \<and> tags v = []) \<or>
      map_of d ''tags'' = Some (JArr (map JStr (tags v)))"
    using f(6) by (rule str_list_Inr)
qed

lemma public_fields:
  assumes "to_public sd = Inr r"
  shows "map_of (snd sd) ''min_amount'' = Some (JNum (of_int (min_amount r)))"
    and "map_of (snd sd) ''max_amount'' = Some (JNum (of_int (max_amount r)))"
proof -
  have "validate_offer (snd sd) = Inr (offer.truncate r)"
    using assms to_public_Inr [of "fst sd" "snd sd" r] by simp
  from valid_fields(3,4) [OF this]
  show "map_of (snd sd) ''min_amount'' = Some (JNum (of_int (min_amount r)))"
    and "map_of (snd sd) ''max_amount'' = Some (JNum (of_int (max_amount r)))"
    by (simp_all add: offer.truncate_def)
qed

section \<open>The store and the listing\<close>

lemma tick_healthy: "faults s = [] \<Longrightarrow> tick s = (None, s)"
  by (simp add: tick_def)

lemma find_docs_healthy:
  "faults s = [] \<Longrightarrow> covered f \<Longrightarrow>
   find_docs n f s = (Inr (filter (\<lambda>sd. matches f (snd sd)) (coll s n)), s)"
  by (simp add: find_docs_def tick_healthy)

lemma covered_build_filter:
  "covered (build_filter q a mn mx mr) = (case q of None \<Rightarrow> True | Some s \<Rightarrow> rx_parse s \<noteq> None)"
  by (cases q; cases a; cases mn; cases mx; cases mr)
     (simp_all add: build_filter_def covered_def dict_set_def setdefault_def update_at_def
        ops_update_def Let_def)

lemma public_results_filter:
  assumes "public_results sds = Inr rs"
    and "\<And>sd r. sd \<in> set sds \<Longrightarrow> to_public sd = Inr r \<Longrightarrow> P sd = Q r"
  shows "public_results (filter P sds) = Inr (filter Q rs)"
  using assms
proof (induction sds arbitrary: rs)
  case Nil
  then show ?case by simp
next
  case (Cons sd sds)
  from Cons.prems(1) obtain r rs' where r: "to_public sd = Inr r"
    and rs': "public_results sds = Inr rs'" and rs: "rs = r # rs'"
    by (auto split: sum.splits)
  have "public_results (filter P sds) = Inr (filter Q rs')"
    using Cons.IH [OF rs'] Cons.prems(2) by simp
  moreover have "P sd = Q r"
    using Cons.prems(2) r by simp
  ultimately show ?case
    using r rs by simp
qed

lemma public_results_member:
  "public_results sds = Inr rs \<Longrightarrow> r \<in> set rs \<Longrightarrow> \<exists>sd \<in> set sds. to_public sd = Inr r"
  by (induction sds arbitrary: rs) (auto split: sum.splits)

lemma list_offers_healthy:
  assumes "faults s = []" and "covered (build_filter q a mn mx mr)"
  shows "list_offers (Some s) q a mn mx mr =
     (case public_results
             (filter (\<lambda>sd. matches (build_filter q a mn mx mr) (snd sd)) (coll s ''offer'')) of
        Inl es \<Rightarrow> Unhandled (ValidationError es)
      | Inr rs \<Rightarrow> Ok 200 rs, Some s)"
proof -
  have "get_documents ''offer'' (build_filter q a mn mx mr) s =
      (Inr (filter (\<lambda>sd. matches (build_filter q a mn mx mr) (snd sd)) (coll s ''offer'')), s)"
    using assms by (simp add: get_documents_def find_docs_def tick_def)
  then show ?thesis
    by (simp add: list_offers_def split: sum.splits)
qed

lemma find_docs_Inr:
  "find_docs n f s = (Inr ds, s') \<Longrightarrow> ds = filter (\<lambda>sd. matches f (snd sd)) (coll s' n)"
  by (auto simp add: find_docs_def tick_def coll_def split: list.splits option.splits if_splits)

lemma list_offers_Ok:
  assumes "list_offers db q a mn mx mr = (Ok c rs, db')"
  shows "\<exists>s ds s'. db = Some s \<and>
           get_documents ''offer'' (build_filter q a mn mx mr) s = (Inr ds, s') \<and>
           public_results ds = Inr rs"
proof (cases db)
  case None
  with assms show ?thesis by (simp add: list_offers_def)
next
  case (Some s)
  obtain res s' where g: "get_documents ''offer'' (build_filter q a mn mx mr) s = (res, s')"
    by (cases "get_documents ''offer'' (build_filter q a mn mx mr) s")
  with assms Some show ?thesis
    by (auto simp add: list_offers_def split: sum.splits store_err.splits)
qed

section \<open>Seeding\<close>

lemma insert_one_healthy:
  "faults s = [] \<Longrightarrow>
   insert_one n d s =
     (Inr (next_oid s),
      s\<lparr>colls := AList.update n (coll s n @ [(next_oid s, d)]) (colls s),
        next_oid := Suc (next_oid s)\<rparr>)"
  by (simp add: insert_one_def tick_healthy)

lemma insert_samples_healthy:
  "faults s = [] \<Longrightarrow>
   \<exists>s'. insert_samples ds k s = (Inr (k + length ds), s') \<and> faults s' = [] \<and>
        coll s' ''offer'' = coll s ''offer'' @ enumerate (next_oid s) ds"
proof (induction ds arbitrary: k s)
  case Nil
  then show ?case by simp
next
  case (Cons d ds)
  let ?s1 = "s\<lparr>colls := AList.update ''offer'' (coll s ''offer'' @ [(next_oid s, d)]) (colls s),
        next_oid := Suc (next_oid s)\<rparr>"
  have c: "create_document ''offer'' d s = (Inr (str_oid (next_oid s)), ?s1)"
    using Cons.prems by (simp add: create_document_def insert_one_healthy)
  have f1: "faults ?s1 = []"
    using Cons.prems by simp
  have c1: "coll ?s1 ''offer'' = coll s ''offer'' @ [(next_oid s, d)]"
    by (simp add: coll_def update_conv')
  from Cons.IH [OF f1, of "Suc k"] obtain s' where
    i: "insert_samples ds (Suc k) ?s1 = (Inr (Suc k + length ds), s')"
    and f: "faults s' = []"
    and cs: "coll s' ''offer'' = coll ?s1 ''offer'' @ enumerate (next_oid ?s1) ds"
    by blast
  from c i f cs c1 show ?case
    by simp
qed

lemma count_documents_healthy:
  "faults s = [] \<Longrightarrow> count_documents n [] s = (Inr (length (coll s n)), s)"
  by (simp add: count_documents_def find_docs_healthy covered_def matches_def)

lemma seed_offers_empty:
  assumes "faults s = []" and "coll s ''offer'' = []"
  shows "\<exists>s'. seed_offers (Some s) =
            (Ok 200 \<lparr>status = ''ok'', inserted = 4, message = None\<rparr>, Some s') \<and>
          faults s' = [] \<and>
          coll s' ''offer'' = enumerate (next_oid s) sample"
proof -
  from insert_samples_healthy [OF assms(1), of sample 0] obtain s' where
    i: "insert_samples sample 0 s = (Inr (0 + length sample), s')"
    and f: "faults s' = []"
    and c: "coll s' ''offer'' = coll s ''offer'' @ enumerate (next_oid s) sample"
    by blast
  have l: "length sample = 4"
    by (simp add: sample_def)
  from c assms(2) have c': "coll s' ''offer'' = enumerate (next_oid s) sample"
    by simp
  from i l assms have "seed_offers (Some s) =
            (Ok 200 \<lparr>status = ''ok'', inserted = 4, message = None\<rparr>, Some s')"
    by (simp add: seed_offers_def count_documents_healthy)
  with f c' show ?thesis
    by blast
qed

lemma seed_offers_nonempty:
  assumes "faults s = []" and "coll s ''offer'' \<noteq> []"
  shows "seed_offers (Some s) =
           (Ok 200 \<lparr>status = ''ok'', inserted = 0, message = Some ''Offers already exist''\<rparr>,
            Some s)"
  using assms by (simp add: seed_offers_def count_documents_healthy)

lemma seed_offers_no_insert:
  assumes "coll s ''offer'' \<noteq> []"
  shows "\<exists>r s'. seed_offers (Some s) = (r, Some s') \<and> colls s' = colls s"
proof (cases "faults s")
  case Nil
  with assms show ?thesis
    by (simp add: seed_offers_nonempty)
next
  case (Cons f fs)
  have c: "coll (s\<lparr>faults := fs\<rparr>) ''offer'' = coll s ''offer''"
    by (simp add: coll_def)
  show ?thesis
  proof (cases f)
    case None
    with Cons assms c show ?thesis
      by (simp add: seed_offers_def count_documents_def find_docs_def tick_def covered_def
            matches_def)
  next
    case (Some e)
    with Cons show ?thesis
      by (simp add: seed_offers_def count_documents_def find_docs_def tick_def)
  qed
qed

section \<open>The example store\<close>

lemma validate_doc_a: "validate_offer doc_a = Inr (offer.truncate public_a)"
  by (simp add: validate_offer_def doc_a_def public_a_def field_defs is_integral_def
        offer.truncate_def)

lemma validate_doc_b: "validate_offer doc_b = Inr (offer.truncate public_b)"
  by (simp add: validate_offer_def doc_b_def public_b_def field_defs is_integral_def
        offer.truncate_def)

lemma demo_public:
  "coll demo_store ''offer'' = [(0, doc_a), (1, doc_b)]"
  "to_public (0, doc_a) = Inr public_a"
  "to_public (Suc 0, doc_b) = Inr public_b"
  by (simp_all add: coll_def demo_store_def to_public_eq validate_doc_a validate_doc_b
        offer.truncate_def offer.extend_def offer_public.fields_def public_a_def public_b_def)

section \<open>The filter builder\<close>

lemma ascii_simps: "ascii [] = []" "ascii (c # cs) = of_char c # ascii cs"
  by (simp_all add: ascii_def)

lemma matches_build_filter:
  "matches (build_filter q max_apr mn mx mr) d =
     ((case max_apr of None \<Rightarrow> True | Some v \<Rightarrow> holds (Lte v) (map_of d ''apr'')) \<and>
      (case mn of None \<Rightarrow> True | Some v \<Rightarrow> holds (Gte (of_int v)) (map_of d ''max_amount'')) \<and>
      (case mx of None \<Rightarrow> True | Some v \<Rightarrow> holds (Lte (of_int v)) (map_of d ''min_amount'')) \<and>
      (case mr of None \<Rightarrow> True | Some v \<Rightarrow> holds (Gte v) (map_of d ''rating'')) \<and>
      (case q of None \<Rightarrow> True
       | Some s \<Rightarrow> s = [] \<or> holds (Regex s ''i'') (map_of d ''name'') \<or>
                  holds (In_list [s]) (map_of d ''tags'')))"
  by (auto simp add: build_filter_def matches_def dict_set_def setdefault_def update_at_def
        ops_update_def field_clause_def Let_def split: option.splits)

text \<open>
  C2. Whatever parameters are supplied, a document passes the filter built from them
  exactly when it satisfies every supplied range constraint and, when a non-empty \<open>q\<close>
  is supplied, the name pattern or the tag membership; the range constraints read the
  fields the source names (\<open>min_amount\<close> is compared with the document's \<open>max_amount\<close>
  and the other way round). An empty \<open>q\<close> adds nothing, which agrees with its clause:
  the empty pattern is found in every name. With no parameter the filter is the empty
  dictionary and every document passes.
\<close>

theorem build_filter_combines:
  "matches (build_filter q max_apr mn mx mr) d =
     ((case max_apr of None \<Rightarrow> True | Some v \<Rightarrow> holds (Lte v) (map_of d ''apr'')) \<and>
      (case mn of None \<Rightarrow> True | Some v \<Rightarrow> holds (Gte (of_int v)) (map_of d ''max_amount'')) \<and>
      (case mx of None \<Rightarrow> True | Some v \<Rightarrow> holds (Lte (of_int v)) (map_of d ''min_amount'')) \<and>
      (case mr of None \<Rightarrow> True | Some v \<Rightarrow> holds (Gte v) (map_of d ''rating'')) \<and>
      (case q of None \<Rightarrow> True
       | Some s \<Rightarrow> s = [] \<or> holds (Regex s ''i'') (map_of d ''name'') \<or>
                  holds (In_list [s]) (map_of d ''tags'')))
   \<and> build_filter None None None None None = []
   \<and> matches (build_filter None None None None None) d"
proof -
  have "build_filter None None None None None = []"
    by (simp add: build_filter_def)
  moreover have "matches [] d"
    by (simp add: matches_def)
  ultimately show ?thesis
    using matches_build_filter [of q max_apr mn mx mr d] by simp
qed

lemma holds_simps:
  "holds e None = False"
  "holds e (Some JNull) = False"
  "holds (Lte v) (Some (JNum x)) = (x \<le> v)"
  "holds (Gte v) (Some (JNum x)) = (v \<le> x)"
  "holds (Regex p opts) (Some (JStr s)) = regex_match p opts s"
  "holds (In_list vs) (Some (JArr (map JStr ss))) = (\<exists>s \<in> set ss. s \<in> set vs)"
  by (cases e; simp add: holds_def list_ex_iff)+

section \<open>Listing by amount\<close>

text \<open>
  C3. Let the store answer and let \<open>rs\<close> be the stored offers as the listing shows them
  with no filter. The listing with only \<open>min_amount = v\<close> returns exactly the records of
  \<open>rs\<close> whose \<open>max_amount\<close> is at least \<open>v\<close>, and the listing with only \<open>max_amount = w\<close>
  exactly those whose \<open>min_amount\<close> is at most \<open>w\<close>: each parameter is compared with
  the opposite field.
\<close>

theorem amount_filters_swapped:
  assumes "faults s = []" and "public_results (coll s ''offer'') = Inr rs"
  shows "list_offers (Some s) None None (Some v) None None =
           (Ok 200 (filter (\<lambda>r. v \<le> max_amount r) rs), Some s)
       \<and> list_offers (Some s) None None None (Some w) None =
           (Ok 200 (filter (\<lambda>r. min_amount r \<le> w) rs), Some s)"
proof -
  have "public_results
          (filter (\<lambda>sd. matches (build_filter None None (Some v) None None) (snd sd))
             (coll s ''offer'')) = Inr (filter (\<lambda>r. v \<le> max_amount r) rs)"
    using assms(2)
    by (rule public_results_filter) (simp add: matches_build_filter public_fields holds_simps)
  moreover have "public_results
          (filter (\<lambda>sd. matches (build_filter None None None (Some w) None) (snd sd))
             (coll s ''offer'')) = Inr (filter (\<lambda>r. min_amount r \<le> w) rs)"
    using assms(2)
    by (rule public_results_filter) (simp add: matches_build_filter public_fields holds_simps)
  ultimately show ?thesis
    using assms(1) by (simp add: list_offers_healthy covered_build_filter)
qed

theorem amount_filters_swapped_witness:
  "faults demo_store = [] \<and>
   public_results (coll demo_store ''offer'') = Inr [public_a, public_b] \<and>
   list_offers (Some demo_store) None None (Some 1000) None None =
     (Ok 200 [public_b], Some demo_store) \<and>
   list_offers (Some demo_store) None None None (Some 500) None =
     (Ok 200 [public_a], Some demo_store)"
proof -
  have f: "faults demo_store = []"
    by (simp add: demo_store_def)
  have p: "public_results (coll demo_store ''offer'') = Inr [public_a, public_b]"
    by (simp add: demo_public)
  show ?thesis
    using f p amount_filters_swapped [OF f p, of 1000 500]
    by (simp add: public_a_def public_b_def)
qed

section \<open>Listing the seed data\<close>

lemma validate_samples:
  "\<exists>v. validate_offer sample_fast = Inr v \<and> name v = name_fast"
  "\<exists>v. validate_offer sample_reliable = Inr v \<and> name v = name_reliable"
  "\<exists>v. validate_offer sample_zaimer = Inr v \<and> name v = name_zaimer"
  "\<exists>v. validate_offer sample_rublgo = Inr v \<and> name v = name_rublgo"
  by (simp_all add: validate_offer_def sample_fast_def sample_reliable_def sample_zaimer_def
        sample_rublgo_def field_defs is_integral_def is_http_url_def ascii_simps)

lemma to_public_name:
  "validate_offer d = Inr v \<Longrightarrow> \<exists>r. to_public (i, d) = Inr r \<and> name r = name v"
  by (simp add: to_public_eq offer.extend_def)

lemma sample_matches:
  "\<not> matches (build_filter None (Some 25) None None (Some (43 / 10))) sample_fast"
  "matches (build_filter None (Some 25) None None (Some (43 / 10))) sample_reliable"
  "matches (build_filter None (Some 25) None None (Some (43 / 10))) sample_zaimer"
  "\<not> matches (build_filter None (Some 25) None None (Some (43 / 10))) sample_rublgo"
  by (simp_all add: matches_build_filter sample_fast_def sample_reliable_def sample_zaimer_def
        sample_rublgo_def holds_simps)

lemma seeded_listing:
  assumes "faults s = []" and "coll s ''offer'' = []"
  shows "listed_names
           (fst (get_api_offers (snd (seed_offers (Some s))) None (Some 25) None None
                   (Some (43 / 10)))) =
         Some [name_reliable, name_zaimer]"
proof -
  from seed_offers_empty [OF assms] obtain s' where
    s: "snd (seed_offers (Some s)) = Some s'" and f: "faults s' = []"
    and c: "coll s' ''offer'' = enumerate (next_oid s) sample"
    by force
  from validate_samples(2) to_public_name obtain r1 where
    r1: "to_public (Suc (next_oid s), sample_reliable) = Inr r1" "name r1 = name_reliable"
    by metis
  from validate_samples(3) to_public_name obtain r2 where
    r2: "to_public (Suc (Suc (next_oid s)), sample_zaimer) = Inr r2" "name r2 = name_zaimer"
    by metis
  have "filter (\<lambda>sd. matches (build_filter None (Some 25) None None (Some (43 / 10))) (snd sd))
          (coll s' ''offer'') =
        [(Suc (next_oid s), sample_reliable), (Suc (Suc (next_oid s)), sample_zaimer)]"
    by (simp add: c sample_def sample_matches)
  then have "list_offers (Some s') None (Some 25) None None (Some (43 / 10)) =
      (Ok 200 [r1, r2], Some s')"
    using f r1(1) r2(1) by (simp add: list_offers_healthy covered_build_filter)
  then show ?thesis
    using s r1(2) r2(2) by (simp add: get_api_offers_def query_errors_def listed_names_def)
qed

text \<open>
  C1, as the code has it. Seed a store that answers and has no offer, then list with
  \<open>max_apr = 25\<close> and \<open>min_rating = 4.3\<close>: the listing returns two records, Nadyozhny Zaim
  (apr 24.5, rating 4.4) and Zaimer (apr 19.9, rating 4.8), in the order inserted.
\<close>

theorem seed_listing_two_offers:
  "faults s = [] \<and> coll s ''offer'' = [] \<longrightarrow>
   listed_names
     (fst (get_api_offers (snd (seed_offers (Some s))) None (Some 25) None None
             (Some (43 / 10)))) =
   Some [name_reliable, name_zaimer]"
  using seeded_listing [of s] by simp

theorem seed_listing_two_offers_witness:
  "faults empty_store = [] \<and> coll empty_store ''offer'' = [] \<and>
   listed_names
     (fst (get_api_offers (snd (seed_offers (Some empty_store))) None (Some 25) None None
             (Some (43 / 10)))) =
   Some [name_reliable, name_zaimer]"
proof -
  have e: "faults empty_store = [] \<and> coll empty_store ''offer'' = []"
    by (simp add: empty_store_def coll_def)
  with seed_listing_two_offers [of empty_store] show ?thesis
    by simp
qed

text \<open>
  C1 as stated fails: the listing is not the single record Nadyozhny Zaim.
\<close>

theorem seed_listing_not_one_offer:
  "listed_names
     (fst (get_api_offers (snd (seed_offers (Some empty_store))) None (Some 25) None None
             (Some (43 / 10)))) \<noteq>
   Some [name_reliable]"
proof -
  have "faults empty_store = []" and "coll empty_store ''offer'' = []"
    by (simp_all add: empty_store_def coll_def)
  then show ?thesis
    by (simp add: seeded_listing)
qed

section \<open>Listing by rating\<close>

text \<open>
  C8. A document whose \<open>rating\<close> is absent or null passes no filter built with a
  \<open>min_rating\<close>, whatever its value (0 included) and whatever the other parameters;
  and every record a listing with a \<open>min_rating\<close> returns has a rating.
\<close>

theorem unrated_never_listed:
  "(map_of d ''rating'' = None \<or> map_of d ''rating'' = Some JNull \<longrightarrow>
      \<not> matches (build_filter q a mn mx (Some x)) d) \<and>
   (list_offers db q a mn mx (Some x) = (Ok c rs, db') \<longrightarrow> (\<forall>r \<in> set rs. rating r \<noteq> None))"
proof (intro conjI impI ballI)
  assume "map_of d ''rating'' = None \<or> map_of d ''rating'' = Some JNull"
  then show "\<not> matches (build_filter q a mn mx (Some x)) d"
    by (auto simp add: matches_build_filter holds_simps)
next
  fix r
  assume l: "list_offers db q a mn mx (Some x) = (Ok c rs, db')" and r: "r \<in> set rs"
  from list_offers_Ok [OF l] obtain s ds s' where
    g: "get_documents ''offer'' (build_filter q a mn mx (Some x)) s = (Inr ds, s')"
    and p: "public_results ds = Inr rs"
    by blast
  from public_results_member [OF p r] obtain sd where sd: "sd \<in> set ds"
    and t: "to_public sd = Inr r"
    by blast
  from g sd have m: "matches (build_filter q a mn mx (Some x)) (snd sd)"
    by (auto simp add: get_documents_def dest: find_docs_Inr)
  have v: "validate_offer (snd sd) = Inr (offer.truncate r)"
    using t to_public_Inr [of "fst sd" "snd sd" r] by simp
  show "rating r \<noteq> None"
  proof
    assume "rating r = None"
    then have "rating (offer.truncate r) = None"
      by (simp add: offer.truncate_def)
    from valid_fields(5) [OF v this] m show False
      by (auto simp add: matches_build_filter holds_simps)
  qed
qed

theorem unrated_never_listed_witness:
  "map_of doc_a ''rating'' = None \<and>
   \<not> matches (build_filter None None None None (Some 0)) doc_a \<and>
   list_offers (Some demo_store) None None None None (Some 0) =
     (Ok 200 [public_b], Some demo_store) \<and>
   rating public_b \<noteq> None"
proof -
  have a: "map_of doc_a ''rating'' = None"
    by (simp add: doc_a_def)
  have f: "faults demo_store = []"
    by (simp add: demo_store_def)
  have b: "matches (build_filter None None None None (Some 0)) doc_b"
    by (simp add: matches_build_filter doc_b_def holds_simps)
  have n: "\<not> matches (build_filter None None None None (Some 0)) doc_a"
    by (simp add: matches_build_filter doc_a_def holds_simps)
  have l: "list_offers (Some demo_store) None None None None (Some 0) =
     (Ok 200 [public_b], Some demo_store)"
    using f by (simp add: list_offers_healthy covered_build_filter demo_public b n)
  show ?thesis
    using a l unrated_never_listed [of doc_a None None None None 0 "Some demo_store" 200
        "[public_b]" "Some demo_store"]
    by simp
qed

section \<open>The text search\<close>

lemma rx_parse_literal: "set q \<inter> set rx_meta = {} \<Longrightarrow> rx_parse q = Some (map Lit q)"
  by (induction q) (auto simp add: rx_meta_def)

lemma rx_here_literal:
  "rx_here True (map Lit q) s = prefix (map casefold q) (map casefold s)"
proof (induction q arbitrary: s)
  case Nil
  then show ?case by simp
next
  case (Cons c q)
  then show ?case by (cases s) auto
qed

lemma rx_search_literal:
  "rx_search True (map Lit q) s = sublist (map casefold q) (map casefold s)"
proof (induction s)
  case Nil
  then show ?case by (cases q) simp_all
next
  case (Cons x s)
  then show ?case
    by (simp add: rx_here_literal sublist_Cons_right del: rx_here.simps)
qed

lemma regex_match_literal:
  "set q \<inter> set rx_meta = {} \<Longrightarrow> regex_match q ''i'' s = ci_substring q s"
  by (simp add: regex_match_def rx_parse_literal rx_search_literal ci_substring_def)

lemma dot_matches_doc_a: "matches (build_filter (Some [46]) None None None None) doc_a"
  by (simp add: matches_build_filter doc_a_def holds_simps regex_match_def ascii_simps)

lemma dot_not_in_doc_a:
  "\<not> (ci_substring [46] (name public_a) \<or> [46] \<in> set (tags public_a))"
  by (simp add: ci_substring_def public_a_def ascii_simps casefold_def sublist_Cons_right)

text \<open>
  Where the two readings of \<open>q\<close> agree. The source passes \<open>q\<close> to the store under
  \<open>$regex\<close>. When \<open>q\<close> is not empty and holds no metacharacter of the pattern language,
  a valid stored offer passes the filter built from \<open>q\<close> alone exactly when \<open>q\<close> occurs
  in its name, compared by the folding table above, or is one of its tags. An empty \<open>q\<close>
  builds the filter that an absent \<open>q\<close> builds.
\<close>

lemma text_search_literal:
  "(q \<noteq> [] \<and> set q \<inter> set rx_meta = {} \<and> validate_offer d = Inr v \<longrightarrow>
      covered (build_filter (Some q) None None None None) \<and>
      (matches (build_filter (Some q) None None None None) d \<longleftrightarrow>
         ci_substring q (name v) \<or> q \<in> set (tags v)))
   \<and> build_filter (Some []) a mn mx mr = build_filter None a mn mx mr"
proof (intro conjI impI)
  show "build_filter (Some []) a mn mx mr = build_filter None a mn mx mr"
    by (simp add: build_filter_def)
next
  assume h: "q \<noteq> [] \<and> set q \<inter> set rx_meta = {} \<and> validate_offer d = Inr v"
  then show "covered (build_filter (Some q) None None None None)"
    by (simp add: covered_build_filter rx_parse_literal)
  from h have v: "validate_offer d = Inr v" by simp
  from valid_fields(1) [OF v] valid_fields(6) [OF v] h
  show "matches (build_filter (Some q) None None None None) d \<longleftrightarrow>
         ci_substring q (name v) \<or> q \<in> set (tags v)"
    by (auto simp add: matches_build_filter holds_simps regex_match_literal)
qed

lemma text_search_literal_example:
  "[76, 70] \<noteq> [] \<and> set [76, 70] \<inter> set rx_meta = {} \<and>
   validate_offer doc_a = Inr (offer.truncate public_a) \<and>
   covered (build_filter (Some [76, 70]) None None None None) \<and>
   matches (build_filter (Some [76, 70]) None None None None) doc_a \<and>
   ci_substring [76, 70] (name public_a)"
proof -
  have m: "set [76, 70] \<inter> set rx_meta = {}"
    by (simp add: rx_meta_def)
  have c: "ci_substring [76, 70] (name public_a)"
    by (simp add: ci_substring_def public_a_def ascii_simps casefold_def sublist_Cons_right)
  show ?thesis
    using m c validate_doc_a
      text_search_literal [of "[76, 70]" doc_a "offer.truncate public_a"]
    by (simp add: offer.truncate_def)
qed

lemma dot_matches_doc_b: "matches (build_filter (Some [46]) None None None None) doc_b"
  by (simp add: matches_build_filter doc_b_def holds_simps regex_match_def ascii_simps)

lemma dot_not_in_doc_b:
  "\<not> (ci_substring [46] (name public_b) \<or> [46] \<in> set (tags public_b))"
  by (simp add: ci_substring_def public_b_def ascii_simps casefold_def sublist_Cons_right)

lemma dot_lists_all:
  "list_offers (Some demo_store) (Some [46]) None None None None =
     (Ok 200 [public_a, public_b], Some demo_store)"
proof -
  have f: "faults demo_store = []"
    by (simp add: demo_store_def)
  have c: "covered (build_filter (Some [46]) None None None None)"
    by (simp add: covered_build_filter)
  show ?thesis
    by (simp add: list_offers_healthy [OF f c] demo_public dot_matches_doc_a dot_matches_doc_b)
qed

text \<open>
  C4. The claim reads the text search as: \<open>q\<close> is a substring of the name, case
  ignored, or \<open>q\<close> is one of the tags. The code does not do that where \<open>q\<close> holds a
  metacharacter, since it hands \<open>q\<close> unescaped to \<open>$regex\<close>. The query of the single
  character dot (46) selects the stored offers Alfa and Beta, and the listing returns
  both, while neither name holds a dot and neither has the dot among its tags.
\<close>

theorem text_search_is_a_pattern:
  "validate_offer doc_a = Inr (offer.truncate public_a) \<and>
   matches (build_filter (Some [46]) None None None None) doc_a \<and>
   \<not> (ci_substring [46] (name public_a) \<or> [46] \<in> set (tags public_a)) \<and>
   \<not> (ci_substring [46] (name public_b) \<or> [46] \<in> set (tags public_b)) \<and>
   list_offers (Some demo_store) (Some [46]) None None None None =
     (Ok 200 [public_a, public_b], Some demo_store)"
  using validate_doc_a dot_matches_doc_a dot_not_in_doc_a dot_not_in_doc_b dot_lists_all
  by simp

section \<open>Seeding is idempotent\<close>

text \<open>
  C5. When the offer collection holds a record, seeding inserts nothing, whatever the
  store does; when the store answers, it reports \<open>inserted: 0\<close> with the message
  "Offers already exist" and leaves the store as it was. When the store answers and
  the collection is empty, seeding inserts the four samples, reports \<open>inserted: 4\<close>, and
  a second seeding right after reports \<open>inserted: 0\<close> and changes nothing.
\<close>

theorem seed_idempotent:
  "(coll s ''offer'' \<noteq> [] \<longrightarrow>
      (\<exists>r s'. seed_offers (Some s) = (r, Some s') \<and> colls s' = colls s)) \<and>
   (faults s = [] \<and> coll s ''offer'' \<noteq> [] \<longrightarrow>
      seed_offers (Some s) =
        (Ok 200 \<lparr>status = ''ok'', inserted = 0, message = Some ''Offers already exist''\<rparr>,
         Some s)) \<and>
   (faults s = [] \<and> coll s ''offer'' = [] \<longrightarrow>
      (\<exists>s'. seed_offers (Some s) =
              (Ok 200 \<lparr>status = ''ok'', inserted = 4, message = None\<rparr>, Some s') \<and>
            coll s' ''offer'' = enumerate (next_oid s) sample \<and>
            length (coll s' ''offer'') = 4 \<and>
            seed_offers (Some s') =
              (Ok 200 \<lparr>status = ''ok'', inserted = 0,
                        message = Some ''Offers already exist''\<rparr>, Some s')))"
proof (intro conjI impI)
  assume "coll s ''offer'' \<noteq> []"
  then show "\<exists>r s'. seed_offers (Some s) = (r, Some s') \<and> colls s' = colls s"
    by (rule seed_offers_no_insert)
next
  assume "faults s = [] \<and> coll s ''offer'' \<noteq> []"
  then show "seed_offers (Some s) =
        (Ok 200 \<lparr>status = ''ok'', inserted = 0, message = Some ''Offers already exist''\<rparr>,
         Some s)"
    by (simp add: seed_offers_nonempty)
next
  assume h: "faults s = [] \<and> coll s ''offer'' = []"
  then obtain s' where s: "seed_offers (Some s) =
            (Ok 200 \<lparr>status = ''ok'', inserted = 4, message = None\<rparr>, Some s')"
    and f: "faults s' = []" and c: "coll s' ''offer'' = enumerate (next_oid s) sample"
    using seed_offers_empty [of s] by blast
  from c have l: "length (coll s' ''offer'') = 4"
    by (simp add: sample_def)
  then have "coll s' ''offer'' \<noteq> []"
    by auto
  with f have "seed_offers (Some s') =
              (Ok 200 \<lparr>status = ''ok'', inserted = 0,
                        message = Some ''Offers already exist''\<rparr>, Some s')"
    by (simp add: seed_offers_nonempty)
  with s c l show "\<exists>s'. seed_offers (Some s) =
              (Ok 200 \<lparr>status = ''ok'', inserted = 4, message = None\<rparr>, Some s') \<and>
            coll s' ''offer'' = enumerate (next_oid s) sample \<and>
            length (coll s' ''offer'') = 4 \<and>
            seed_offers (Some s') =
              (Ok 200 \<lparr>status = ''ok'', inserted = 0,
                        message = Some ''Offers already exist''\<rparr>, Some s')"
    by blast
qed

theorem seed_idempotent_witness:
  "faults empty_store = [] \<and> coll empty_store ''offer'' = [] \<and>
   fst (seed_offers (Some empty_store)) =
     Ok 200 \<lparr>status = ''ok'', inserted = 4, message = None\<rparr> \<and>
   fst (seed_offers (snd (seed_offers (Some empty_store)))) =
     Ok 200 \<lparr>status = ''ok'', inserted = 0, message = Some ''Offers already exist''\<rparr> \<and>
   faults demo_store = [] \<and> coll demo_store ''offer'' \<noteq> [] \<and>
   seed_offers (Some demo_store) =
     (Ok 200 \<lparr>status = ''ok'', inserted = 0, message = Some ''Offers already exist''\<rparr>,
      Some demo_store)"
proof -
  have e: "faults empty_store = [] \<and> coll empty_store ''offer'' = []"
    by (simp add: empty_store_def coll_def)
  have d: "faults demo_store = [] \<and> coll demo_store ''offer'' \<noteq> []"
    by (simp add: demo_store_def coll_def)
  from e seed_idempotent [of empty_store] obtain s' where
    "seed_offers (Some empty_store) =
       (Ok 200 \<lparr>status = ''ok'', inserted = 4, message = None\<rparr>, Some s')"
    "seed_offers (Some s') =
       (Ok 200 \<lparr>status = ''ok'', inserted = 0, message = Some ''Offers already exist''\<rparr>,
        Some s')"
    by blast
  with e d seed_idempotent [of demo_store] show ?thesis
    by simp
qed

section \<open>Creating an offer\<close>

lemma field_errors_Inl:
  assumes "field_errors d \<noteq> []"
  shows "validate_offer d = Inl (field_errors d)"
proof (cases "validate_offer d")
  case (Inl es)
  then show ?thesis
    using validate_offer_Inl [of d es] by simp
next
  case (Inr v)
  then have "field_errors d = []"
    by (simp add: validate_offer_Inr_iff field_errors_def errs_def)
  with assms show ?thesis by simp
qed

lemma negative_min_amount:
  assumes "map_of body ''min_amount'' = Some (JNum x)" and "x < 0"
  shows "field_errors body \<noteq> []"
proof -
  have "\<lfloor>x\<rfloor> < 0"
    using assms(2) by (simp add: floor_less_iff)
  then have "errs (req_int_ge 0 ''min_amount'' body) \<noteq> []"
    using assms(1) by (simp add: req_int_ge_def errs_def)
  then show ?thesis
    by (simp add: field_errors_def)
qed

lemma create_offer_healthy:
  assumes "faults s = []"
  shows "\<exists>s'. create_offer (Some s) v = (Ok 201 (str_oid (next_oid s)), Some s') \<and>
           coll s' ''offer'' = coll s ''offer'' @ [(next_oid s, model_dump v)]"
  using assms
  by (simp add: create_offer_def create_document_def insert_one_healthy coll_def update_conv')

lemma validate_crossed: "validate_offer crossed_body = Inr crossed_offer"
  by (simp add: validate_offer_def crossed_body_def crossed_offer_def field_defs is_integral_def)

text \<open>
  C6. A body that fails a constraint of the Offer schema (\<open>field_errors\<close> is not empty)
  ends in the framework's validation error, status 422, and the store, its fault
  schedule included, is the one before the request: the handler, which alone writes,
  is not called. A negative \<open>min_amount\<close> is such a body.
\<close>

theorem invalid_body_rejected:
  "(field_errors body \<noteq> [] \<longrightarrow>
      post_api_offers db body = (RequestValidationError (field_errors body), db) \<and>
      status_code (fst (post_api_offers db body)) = Some 422) \<and>
   (map_of body ''min_amount'' = Some (JNum x) \<and> x < 0 \<longrightarrow> field_errors body \<noteq> [])"
  by (auto simp add: post_api_offers_def field_errors_Inl dest: negative_min_amount)

theorem invalid_body_rejected_witness:
  "map_of negative_body ''min_amount'' = Some (JNum (- 5)) \<and> (- 5 :: rat) < 0 \<and>
   field_errors negative_body \<noteq> [] \<and>
   post_api_offers (Some demo_store) negative_body =
     (RequestValidationError (field_errors negative_body), Some demo_store) \<and>
   status_code (fst (post_api_offers (Some demo_store) negative_body)) = Some 422"
proof -
  have m: "map_of negative_body ''min_amount'' = Some (JNum (- 5))"
    by (simp add: negative_body_def)
  with invalid_body_rejected [of negative_body "Some demo_store" "- 5"] show ?thesis
    by simp
qed

text \<open>
  C7. The body \<open>crossed_body\<close> has \<open>min_amount = 500 > max_amount = 100\<close> and
  \<open>term_min_days = 30 > term_max_days = 7\<close>, each field within its own bound. Validation
  accepts it and creation on the empty store succeeds with status 201 and stores it.
\<close>

theorem crossed_bounds_accepted:
  "validate_offer crossed_body = Inr crossed_offer \<and>
   max_amount crossed_offer < min_amount crossed_offer \<and>
   term_max_days crossed_offer < term_min_days crossed_offer \<and>
   field_errors crossed_body = [] \<and>
   (\<exists>s'. post_api_offers (Some empty_store) crossed_body = (Ok 201 [48], Some s') \<and>
         coll s' ''offer'' = [(0, model_dump crossed_offer)])"
proof -
  have f: "faults empty_store = []" and c: "coll empty_store ''offer'' = []"
    and n: "next_oid empty_store = 0"
    by (simp_all add: empty_store_def coll_def)
  have e: "field_errors crossed_body = []"
    using validate_crossed field_errors_Inl [of crossed_body] by auto
  from create_offer_healthy [OF f, of crossed_offer] c n
  have "\<exists>s'. post_api_offers (Some empty_store) crossed_body = (Ok 201 [48], Some s') \<and>
         coll s' ''offer'' = [(0, model_dump crossed_offer)]"
    by (simp add: post_api_offers_def validate_crossed)
  with e show ?thesis
    by (simp add: validate_crossed crossed_offer_def)
qed

section \<open>Fields outside the schema\<close>

lemma list_all_fields:
  "list_all P offer_fields \<Longrightarrow> k \<in> set offer_fields \<Longrightarrow> P k"
  by (simp add: list_all_iff)

text \<open>
  C10. Validation reads the keys of the schema and no other: two bodies that agree on
  them validate alike and are handled alike, so a body is not rejected for an \<open>id\<close> or
  any other unknown key. \<open>id\<close> is no field of the schema, the document handed to the
  store has exactly the keys of the schema, and on a store that answers the document
  stored for a valid body is the dump of the validated model.
\<close>

theorem unknown_fields_discarded:
  "(list_all (\<lambda>f. map_of body' f = map_of body f) offer_fields \<longrightarrow>
      validate_offer body' = validate_offer body \<and>
      post_api_offers db body' = post_api_offers db body) \<and>
   ''id'' \<notin> set offer_fields \<and>
   map fst (model_dump v) = offer_fields \<and>
   (validate_offer body = Inr v \<and> faults s = [] \<longrightarrow>
      (\<exists>s'. post_api_offers (Some s) body = (Ok 201 (str_oid (next_oid s)), Some s') \<and>
            coll s' ''offer'' = coll s ''offer'' @ [(next_oid s, model_dump v)]))"
proof (intro conjI impI)
  assume a: "list_all (\<lambda>f. map_of body' f = map_of body f) offer_fields"
  show v: "validate_offer body' = validate_offer body"
    by (rule validate_offer_cong) (rule list_all_fields [OF a])
  show "post_api_offers db body' = post_api_offers db body"
    by (simp add: post_api_offers_def v)
next
  show "''id'' \<notin> set offer_fields"
    by (simp add: offer_fields_def)
  show "map fst (model_dump v) = offer_fields"
    by (simp add: model_dump_def offer_fields_def)
next
  assume "validate_offer body = Inr v \<and> faults s = []"
  then show "\<exists>s'. post_api_offers (Some s) body = (Ok 201 (str_oid (next_oid s)), Some s') \<and>
            coll s' ''offer'' = coll s ''offer'' @ [(next_oid s, model_dump v)]"
    using create_offer_healthy [of s v] by (simp add: post_api_offers_def)
qed

theorem unknown_fields_discarded_witness:
  "list_all (\<lambda>f. map_of body_with_id f = map_of doc_a f) offer_fields \<and>
   map_of body_with_id ''id'' = Some (JStr (ascii ''abc'')) \<and>
   validate_offer body_with_id = Inr (offer.truncate public_a) \<and>
   faults demo_store = [] \<and>
   (\<exists>s'. post_api_offers (Some demo_store) body_with_id = (Ok 201 [50], Some s') \<and>
         coll s' ''offer'' =
           [(0, doc_a), (1, doc_b), (2, model_dump (offer.truncate public_a))])"
proof -
  have a: "list_all (\<lambda>f. map_of body_with_id f = map_of doc_a f) offer_fields"
    by (simp add: offer_fields_def body_with_id_def doc_a_def)
  have i: "map_of body_with_id ''id'' = Some (JStr (ascii ''abc''))"
    by (simp add: body_with_id_def)
  have f: "faults demo_store = []" and n: "next_oid demo_store = 2"
    by (simp_all add: demo_store_def)
  from a unknown_fields_discarded [of body_with_id doc_a "Some demo_store"]
  have e: "validate_offer body_with_id = Inr (offer.truncate public_a)"
    and p: "post_api_offers (Some demo_store) body_with_id =
      post_api_offers (Some demo_store) doc_a"
    by (simp_all add: validate_doc_a)
  from f unknown_fields_discarded [of doc_a doc_a None "offer.truncate public_a" demo_store]
  have "\<exists>s'. post_api_offers (Some demo_store) doc_a = (Ok 201 [50], Some s') \<and>
         coll s' ''offer'' =
           [(0, doc_a), (1, doc_b), (2, model_dump (offer.truncate public_a))]"
    by (simp add: validate_doc_a n demo_public)
  with a i e f p show ?thesis
    by simp
qed

section \<open>The diagnostic endpoint\<close>

text \<open>
  C9. For every store handle and every environment \<open>test_database\<close> ends in a response
  with status 200, never in an error. With no store configured it says so; when the
  store raises, the text of the exception, cut at fifty characters, is rendered in the
  \<open>database\<close> field and no collection is listed; when the store answers, the first ten
  collection names are listed. The list never has more than ten names.
\<close>

theorem test_database_total:
  "\<exists>r db'. test_database db getenv = (Ok 200 r, db') \<and>
     length (collections r) \<le> 10 \<and>
     (case db of
        None \<Rightarrow>
          database r = [9888, 65039] @ ascii ''  Available but not initialized'' \<and>
          collections r = []
      | Some s \<Rightarrow>
          (case faults s of
             Some e # fs \<Rightarrow>
               database r = [9888, 65039] @ ascii ''  Connected but Error: '' @ take 50 e \<and>
               collections r = []
           | _ \<Rightarrow>
               database r = [9989] @ ascii '' Connected & Working'' \<and>
               collections r = take 10 (map fst (colls s))))"
proof (cases db)
  case None
  then show ?thesis
    by (simp add: test_database_def)
next
  case (Some s)
  show ?thesis
  proof (cases "faults s")
    case Nil
    with Some show ?thesis
      by (simp add: test_database_def list_collection_names_def tick_def)
  next
    case (Cons f fs)
    with Some show ?thesis
      by (cases f) (simp_all add: test_database_def list_collection_names_def tick_def)
  qed
qed

end
